theory Spec2Isabelle
  imports
    Complex_Main
    "HOL-Library.Char_ord"
    "HOL-Library.List_Lexorder"
    "HOL-Library.Multiset"
begin

section \<open>SoapySDRUtil: the command-line utility of SoapySDR\<close>

text \<open>
  A shallow embedding of \<^verbatim>\<open>apps/SoapySDRUtil.cpp\<close>. The utility is a thin driver over the
  SoapySDR library: every function of the library it calls is a field of the record
  \<open>library\<close> below, acting on an abstract state \<open>'w\<close> of the outside world (the module
  registry of the process, the file system, the attached hardware). The functions of the
  file itself are translated one by one, with the text they write to \<^verbatim>\<open>std::cout\<close> and
  \<^verbatim>\<open>std::cerr\<close> collected in two strings.
\<close>

subsection \<open>Data\<close>

text \<open>
  \<^verbatim>\<open>SoapySDR::Kwargs\<close> is \<^verbatim>\<open>std::map<std::string, std::string>\<close>: the list of its
  key/value pairs in iteration order. \<^verbatim>\<open>SoapySDR::Device *\<close> is an opaque handle.
\<close>

type_synonym Kwargs = "(string \<times> string) list"

type_synonym device = nat

text \<open>
  The only \<^verbatim>\<open>double\<close> of the program is the sample rate: it is produced by
  \<^verbatim>\<open>std::stod\<close>, compared with \<^verbatim>\<open>0.0\<close> and handed on to the rate test. Both zeros
  of the format are \<open>Finite 0\<close>.
\<close>

datatype double = Finite real | Infinity bool | NaN

definition nonzero :: "double \<Rightarrow> bool" where
  "nonzero d = (d \<noteq> Finite 0)"

text \<open>
  An exception derived from \<^verbatim>\<open>std::exception\<close> is the string its \<^verbatim>\<open>what()\<close> returns;
  a call that may throw returns \<open>Inl\<close> of it.
\<close>

type_synonym exn = string

record 'w library =
  getLibVersion :: "'w \<Rightarrow> string"
  getAPIVersion :: "'w \<Rightarrow> string"
  getABIVersion :: "'w \<Rightarrow> string"
  getRootPath :: "'w \<Rightarrow> string"
  listSearchPaths :: "'w \<Rightarrow> string list"
  listModules :: "'w \<Rightarrow> string list"
  stat_fails :: "string \<Rightarrow> 'w \<Rightarrow> bool"
  loadModule :: "string \<Rightarrow> 'w \<Rightarrow> string \<times> 'w"
  getModuleVersion :: "string \<Rightarrow> 'w \<Rightarrow> string"
  loadModules :: "'w \<Rightarrow> 'w"
  listFindFunctions :: "'w \<Rightarrow> string list"
  listAvailableSourceFormats :: "'w \<Rightarrow> string list"
  listTargetFormats :: "string \<Rightarrow> 'w \<Rightarrow> string list"
  Device_enumerate :: "string \<Rightarrow> 'w \<Rightarrow> Kwargs list \<times> 'w"
  KwargsToString :: "Kwargs \<Rightarrow> string"
  Device_make :: "string \<Rightarrow> 'w \<Rightarrow> (exn + device) \<times> 'w"
  getDriverKey :: "device \<Rightarrow> 'w \<Rightarrow> (exn + string) \<times> 'w"
  getHardwareKey :: "device \<Rightarrow> 'w \<Rightarrow> (exn + string) \<times> 'w"
  getHardwareInfo :: "device \<Rightarrow> 'w \<Rightarrow> (exn + Kwargs) \<times> 'w"
  Device_unmake :: "device \<Rightarrow> 'w \<Rightarrow> (exn + unit) \<times> 'w"
  SoapySDRDeviceProbe :: "device \<Rightarrow> 'w \<Rightarrow> (exn + string) \<times> 'w"
  SoapySDRRateTest :: "string \<Rightarrow> double \<Rightarrow> string \<Rightarrow> string \<Rightarrow> 'w \<Rightarrow> (exn + int) \<times> 'w"
  stod :: "string \<Rightarrow> exn + double"

text \<open>
  \<open>stat_fails lib path w\<close> is \<^verbatim>\<open>stat(path.c_str(), &info) != 0\<close>. \<open>listFindFunctions\<close>
  gives the keys of the \<^verbatim>\<open>std::map\<close> of find functions in iteration order (the
  function pointers are never used). The calls that the source makes inside a
  \<^verbatim>\<open>try\<close> block may throw; \<^verbatim>\<open>std::stod\<close> throws \<^verbatim>\<open>std::invalid_argument\<close> or
  \<^verbatim>\<open>std::out_of_range\<close>; the rate test is outside this file and may do either. The other
  calls return. Text that the library itself writes to the console is part of \<open>'w\<close>.
\<close>

text \<open>
  The calls that acquire and release, in the order they were made: the log is not part
  of the program, it records what the program did to the library.
\<close>

datatype call =
    LoadModules
  | LoadModule string
  | MakeOk device
  | MakeThrew
  | Unmake device

record 'w sys =
  world :: 'w
  cout :: string
  cerr :: string
  calls :: "call list"

definition endl :: string where
  "endl = [CHR 0x0A]"

definition put_out :: "string \<Rightarrow> 'w sys \<Rightarrow> 'w sys" where
  "put_out t s = s\<lparr>cout := cout s @ t\<rparr>"

definition put_err :: "string \<Rightarrow> 'w sys \<Rightarrow> 'w sys" where
  "put_err t s = s\<lparr>cerr := cerr s @ t\<rparr>"

definition EXIT_SUCCESS :: int where
  "EXIT_SUCCESS = 0"

definition EXIT_FAILURE :: int where
  "EXIT_FAILURE = 1"

text \<open>\<^verbatim>\<open>std::cout << i\<close> for a \<^verbatim>\<open>size_t\<close>: the decimal digits.\<close>

fun show_nat :: "nat \<Rightarrow> string" where
  "show_nat n =
     (if n < 10 then [char_of (48 + n)]
      else show_nat (n div 10) @ [char_of (48 + n mod 10)])"

declare show_nat.simps [simp del]

subsection \<open>Banner and help\<close>

definition printBanner :: "'w sys \<Rightarrow> 'w sys" where
  "printBanner s = put_err
     (''######################################################'' @ endl @
      ''##     Soapy SDR -- the SDR abstraction library     ##'' @ endl @
      ''######################################################'' @ endl @
      endl) s"

definition tab :: string where
  "tab = [CHR 0x09]"

definition dquote :: string where
  "dquote = [CHR 0x22]"

definition help_text :: string where
  "help_text =
     ''Usage SoapySDRUtil [options]'' @ endl @
     ''  Options summary:'' @ endl @
     ''    --help '' @ tab @ tab @ tab @ tab @ '' Print this help message'' @ endl @
     ''    --info '' @ tab @ tab @ tab @ tab @ '' Print module information'' @ endl @
     ''    --find[='' @ dquote @ ''driver=foo,type=bar'' @ dquote @ ''] '' @ tab @
        '' Discover available devices'' @ endl @
     ''    --make[='' @ dquote @ ''driver=foo,type=bar'' @ dquote @ ''] '' @ tab @
        '' Create a device instance'' @ endl @
     ''    --probe[='' @ dquote @ ''driver=foo,type=bar'' @ dquote @ ''] '' @ tab @
        '' Print detailed information'' @ endl @
     endl @
     ''  Advanced options:'' @ endl @
     ''    --check[=driverName] '' @ tab @ tab @ '' Check if driver is present'' @ endl @
     ''    --sparse             '' @ tab @ tab @ '' Simplified output for --find'' @ endl @
     endl @
     ''  Rate testing options:'' @ endl @
     ''    --args[='' @ dquote @ ''driver=foo'' @ dquote @ ''] '' @ tab @ tab @
        '' Arguments for testing'' @ endl @
     ''    --rate[=stream rate Sps] '' @ tab @ tab @ '' Rate in samples per second'' @ endl @
     ''    --channels[='' @ dquote @ ''0, 1, 2'' @ dquote @ ''] '' @ tab @ tab @
        '' List of channels, default 0'' @ endl @
     ''    --direction[=RX or TX] '' @ tab @ tab @ '' Specify the channel direction'' @ endl @
     endl"

definition printHelp :: "'w sys \<Rightarrow> int \<times> 'w sys" where
  "printHelp s = (EXIT_SUCCESS, put_err help_text s)"

subsection \<open>Version and module information\<close>

text \<open>
  \<^verbatim>\<open>for (const auto &path : xs) maxPathLen = std::max(maxPathLen, path.size());\<close>
\<close>

fun maxLenLoop :: "nat \<Rightarrow> string list \<Rightarrow> nat" where
  "maxLenLoop maxPathLen [] = maxPathLen"
| "maxLenLoop maxPathLen (path # rest) = maxLenLoop (max maxPathLen (length path)) rest"

text \<open>
  \<^verbatim>\<open>std::string(maxPathLen-path.size(), ' ')\<close>. The subtraction is one of \<^verbatim>\<open>size_t\<close>;
  no path of the two lists is longer than \<open>maxPathLen\<close> (\<open>maxLenLoop_widest\<close> and
  \<open>widest_bound\<close> below), so that it never wraps around.
\<close>

definition padding :: "nat \<Rightarrow> string \<Rightarrow> string" where
  "padding maxPathLen path = replicate (maxPathLen - length path) CHR '' ''"

fun printSearchPaths :: "'w library \<Rightarrow> nat \<Rightarrow> string list \<Rightarrow> 'w sys \<Rightarrow> 'w sys" where
  "printSearchPaths lib maxPathLen [] s = s"
| "printSearchPaths lib maxPathLen (path # rest) s =
     (let missing = stat_fails lib path (world s);
          s1 = put_out (''Search path:  '' @ path) s;
          s2 = (if missing then put_out (padding maxPathLen path @ '' (missing)'') s1 else s1);
          s3 = put_out endl s2
      in printSearchPaths lib maxPathLen rest s3)"

fun printModules :: "'w library \<Rightarrow> nat \<Rightarrow> string list \<Rightarrow> 'w sys \<Rightarrow> 'w sys" where
  "printModules lib maxPathLen [] s = s"
| "printModules lib maxPathLen (modl # rest) s =
     (let s1 = put_out (''Module found: '' @ modl) s;
          (errMsg, w1) = loadModule lib modl (world s1);
          s2 = s1\<lparr>world := w1, calls := calls s1 @ [LoadModule modl]\<rparr>;
          s3 = (if errMsg \<noteq> [] then put_out (endl @ ''  '' @ errMsg) s2 else s2);
          version = getModuleVersion lib modl (world s3);
          s4 = (if version \<noteq> []
                then put_out (padding maxPathLen modl @ '' ('' @ version @ '')'') s3 else s3);
          s5 = put_out endl s4
      in printModules lib maxPathLen rest s5)"

text \<open>
  The two loops that join names with \<^verbatim>\<open>", "\<close>:
  \<^verbatim>\<open>if (not factories.empty()) factories += ", "; factories += it.first;\<close>
\<close>

fun joinLoop :: "string \<Rightarrow> string list \<Rightarrow> string" where
  "joinLoop acc [] = acc"
| "joinLoop acc (name # rest) =
     joinLoop ((if acc \<noteq> [] then acc @ '', '' else acc) @ name) rest"

text \<open>\<^verbatim>\<open>std::setw(5) << source\<close>: filled with spaces on the left up to five characters.\<close>

definition setw5 :: "string \<Rightarrow> string" where
  "setw5 t = replicate (5 - length t) CHR '' '' @ t"

fun printConverters :: "'w library \<Rightarrow> string list \<Rightarrow> 'w sys \<Rightarrow> 'w sys" where
  "printConverters lib [] s = s"
| "printConverters lib (source # rest) s =
     (let targets = joinLoop [] (listTargetFormats lib source (world s))
      in printConverters lib rest
           (put_out ('' - '' @ setw5 source @ '' -> ['' @ targets @ '']'' @ endl) s))"

definition printInfo :: "'w library \<Rightarrow> 'w sys \<Rightarrow> int \<times> 'w sys" where
  "printInfo lib s =
     (let s1 = put_out (''Lib Version: v'' @ getLibVersion lib (world s) @ endl) s;
          s2 = put_out (''API Version: v'' @ getAPIVersion lib (world s1) @ endl) s1;
          s3 = put_out (''ABI Version: v'' @ getABIVersion lib (world s2) @ endl) s2;
          s4 = put_out (''Install root: '' @ getRootPath lib (world s3) @ endl) s3;
          searchPaths = listSearchPaths lib (world s4);
          modules = listModules lib (world s4);
          maxPathLen = maxLenLoop (maxLenLoop 0 searchPaths) modules;
          s5 = printSearchPaths lib maxPathLen searchPaths s4;
          s6 = printModules lib maxPathLen modules s5;
          s7 = (if modules = [] then put_out (''No modules found!'' @ endl) s6 else s6);
          s8 = put_out ''Available factories... '' s7;
          factories = joinLoop [] (listFindFunctions lib (world s8));
          factories = (if factories = [] then ''No factories found!'' else factories);
          s9 = put_out (factories @ endl) s8;
          s10 = put_out (''Available converters...'' @ endl) s9;
          s11 = printConverters lib (listAvailableSourceFormats lib (world s10)) s10
      in (EXIT_SUCCESS, s11))"

subsection \<open>Finding devices\<close>

text \<open>
  The loop that fills \<^verbatim>\<open>sparseResults\<close>: the value under \<^verbatim>\<open>"label"\<close> when
  \<^verbatim>\<open>results[i].find("label")\<close> finds one, \<^verbatim>\<open>KwargsToString(results[i])\<close> otherwise.
\<close>

fun sparseLoop :: "'w library \<Rightarrow> Kwargs list \<Rightarrow> string list \<Rightarrow> string list" where
  "sparseLoop lib [] sparseResults = sparseResults"
| "sparseLoop lib (r # rest) sparseResults =
     (case map_of r ''label'' of
        Some label \<Rightarrow> sparseLoop lib rest (sparseResults @ [label])
      | None \<Rightarrow> sparseLoop lib rest (sparseResults @ [KwargsToString lib r]))"

fun printSparse :: "nat \<Rightarrow> string list \<Rightarrow> 'w sys \<Rightarrow> 'w sys" where
  "printSparse i [] s = s"
| "printSparse i (r # rest) s =
     printSparse (i + 1) rest (put_out (show_nat i @ '': '' @ r @ endl) s)"

fun printPairs :: "Kwargs \<Rightarrow> 'w sys \<Rightarrow> 'w sys" where
  "printPairs [] s = s"
| "printPairs (it # rest) s =
     printPairs rest (put_out (''  '' @ fst it @ '' = '' @ snd it @ endl) s)"

fun printFound :: "nat \<Rightarrow> Kwargs list \<Rightarrow> 'w sys \<Rightarrow> 'w sys" where
  "printFound i [] s = s"
| "printFound i (r # rest) s =
     (let s1 = put_out (''Found device '' @ show_nat i @ endl) s;
          s2 = printPairs r s1;
          s3 = put_out endl s2
      in printFound (i + 1) rest s3)"

definition findDevices :: "'w library \<Rightarrow> string \<Rightarrow> bool \<Rightarrow> 'w sys \<Rightarrow> int \<times> 'w sys" where
  "findDevices lib argStr sparse s =
     (let (results, w1) = Device_enumerate lib argStr (world s);
          s1 = s\<lparr>world := w1\<rparr>;
          s2 = (if sparse
                then (let sparseResults = sort (sparseLoop lib results [])
                      in printSparse 0 sparseResults s1)
                else (let s' = printFound 0 results s1
                      in if results = [] then put_err (''No devices found!'' @ endl) s'
                         else put_out endl s'))
      in (if results = [] then EXIT_FAILURE else EXIT_SUCCESS, s2))"

subsection \<open>Making and probing a device\<close>

text \<open>
  A library call on the world of the state; \<open>Device::make\<close> and \<open>Device::unmake\<close> are
  written to the log as well.
\<close>

definition call_lib :: "('w \<Rightarrow> 'a \<times> 'w) \<Rightarrow> 'w sys \<Rightarrow> 'a \<times> 'w sys" where
  "call_lib f s = (let (r, w1) = f (world s) in (r, s\<lparr>world := w1\<rparr>))"

definition call_make :: "'w library \<Rightarrow> string \<Rightarrow> 'w sys \<Rightarrow> (exn + device) \<times> 'w sys" where
  "call_make lib argStr s =
     (let (r, s1) = call_lib (Device_make lib argStr) s
      in (r, s1\<lparr>calls := calls s1 @ [case r of Inl ex \<Rightarrow> MakeThrew | Inr device \<Rightarrow> MakeOk device]\<rparr>))"

definition call_unmake :: "'w library \<Rightarrow> device \<Rightarrow> 'w sys \<Rightarrow> (exn + unit) \<times> 'w sys" where
  "call_unmake lib device s =
     (let (r, s1) = call_lib (Device_unmake lib device) s
      in (r, s1\<lparr>calls := calls s1 @ [Unmake device]\<rparr>))"

fun printInfoPairs :: "Kwargs \<Rightarrow> 'w sys \<Rightarrow> 'w sys" where
  "printInfoPairs [] s = s"
| "printInfoPairs (it # rest) s =
     printInfoPairs rest (put_out (''  '' @ fst it @ ''='' @ snd it @ endl) s)"

text \<open>
  The body of the \<^verbatim>\<open>try\<close> block of \<^verbatim>\<open>makeDevice\<close>: the first call that throws ends it.
  The operands of a chain of \<^verbatim>\<open><<\<close> are taken from left to right, so the text before a
  call is written when the call throws.
\<close>

definition makeDevice_try :: "'w library \<Rightarrow> string \<Rightarrow> 'w sys \<Rightarrow> (exn + unit) \<times> 'w sys" where
  "makeDevice_try lib argStr s =
     (case call_make lib argStr s of
        (Inl ex, s1) \<Rightarrow> (Inl ex, s1)
      | (Inr device, s1) \<Rightarrow>
     (case call_lib (getDriverKey lib device) (put_out ''  driver='' s1) of
        (Inl ex, s2) \<Rightarrow> (Inl ex, s2)
      | (Inr driverKey, s2) \<Rightarrow>
     (case call_lib (getHardwareKey lib device) (put_out ''  hardware='' (put_out (driverKey @ endl) s2)) of
        (Inl ex, s3) \<Rightarrow> (Inl ex, s3)
      | (Inr hardwareKey, s3) \<Rightarrow>
     (case call_lib (getHardwareInfo lib device) (put_out (hardwareKey @ endl) s3) of
        (Inl ex, s4) \<Rightarrow> (Inl ex, s4)
      | (Inr info, s4) \<Rightarrow> call_unmake lib device (printInfoPairs info s4)))))"

definition makeDevice :: "'w library \<Rightarrow> string \<Rightarrow> 'w sys \<Rightarrow> int \<times> 'w sys" where
  "makeDevice lib argStr s =
     (case makeDevice_try lib argStr (put_out (''Make device '' @ argStr @ endl) s) of
        (Inl ex, s1) \<Rightarrow> (EXIT_FAILURE, put_err (''Error making device: '' @ ex @ endl) s1)
      | (Inr u, s1) \<Rightarrow> (EXIT_SUCCESS, put_out endl s1))"

definition probeDevice_try :: "'w library \<Rightarrow> string \<Rightarrow> 'w sys \<Rightarrow> (exn + unit) \<times> 'w sys" where
  "probeDevice_try lib argStr s =
     (case call_make lib argStr s of
        (Inl ex, s1) \<Rightarrow> (Inl ex, s1)
      | (Inr device, s1) \<Rightarrow>
     (case call_lib (SoapySDRDeviceProbe lib device) s1 of
        (Inl ex, s2) \<Rightarrow> (Inl ex, s2)
      | (Inr report, s2) \<Rightarrow> call_unmake lib device (put_out (report @ endl) s2)))"

definition probeDevice :: "'w library \<Rightarrow> string \<Rightarrow> 'w sys \<Rightarrow> int \<times> 'w sys" where
  "probeDevice lib argStr s =
     (case probeDevice_try lib argStr (put_out (''Probe device '' @ argStr @ endl) s) of
        (Inl ex, s1) \<Rightarrow> (EXIT_FAILURE, put_err (''Error probing device: '' @ ex @ endl) s1)
      | (Inr u, s1) \<Rightarrow> (EXIT_SUCCESS, put_out endl s1))"

subsection \<open>Checking the registry for a driver\<close>

definition squote :: string where
  "squote = [CHR 0x27]"

definition checkDriver :: "'w library \<Rightarrow> string \<Rightarrow> 'w sys \<Rightarrow> int \<times> 'w sys" where
  "checkDriver lib driverName s =
     (let s1 = put_out ''Loading modules... '' s;
          s2 = s1\<lparr>world := loadModules lib (world s1), calls := calls s1 @ [LoadModules]\<rparr>;
          s3 = put_out (''done'' @ endl) s2;
          s4 = put_out (''Checking driver '' @ squote @ driverName @ squote @ ''... '') s3;
          factories = listFindFunctions lib (world s4)
      in if driverName \<notin> set factories
         then (EXIT_FAILURE, put_out (''MISSING!'' @ endl) s4)
         else (EXIT_SUCCESS, put_out (''PRESENT'' @ endl) s4))"

subsection \<open>The entry point\<close>

text \<open>
  \<^verbatim>\<open>getopt_long_only\<close> is the C library's: the command line reaches \<^verbatim>\<open>main\<close> as the
  sequence of pairs it returns, the character of the option (\<^verbatim>\<open>'?'\<close> for one it does not
  know) and \<^verbatim>\<open>optarg\<close>, a null pointer (\<open>None\<close>) when the option came without \<^verbatim>\<open>=value\<close>.
\<close>

type_synonym getopt_result = "char \<times> string option"

record vars =
  argStr :: string
  chanStr :: string
  dirStr :: string
  sampleRate :: double
  driverName :: string
  findDevicesFlag :: bool
  sparsePrintFlag :: bool
  makeDeviceFlag :: bool
  probeDeviceFlag :: bool

definition initial_vars :: vars where
  "initial_vars =
     \<lparr>argStr = [], chanStr = [], dirStr = [], sampleRate = Finite 0, driverName = [],
      findDevicesFlag = False, sparsePrintFlag = False, makeDeviceFlag = False,
      probeDeviceFlag = False\<rparr>"

text \<open>\<^verbatim>\<open>if (optarg != nullptr) x = optarg;\<close>\<close>

definition assign :: "string option \<Rightarrow> string \<Rightarrow> string" where
  "assign optarg x = (case optarg of None \<Rightarrow> x | Some a \<Rightarrow> a)"

text \<open>
  One pass through the \<^verbatim>\<open>switch\<close>: it returns from \<^verbatim>\<open>main\<close> with the help or the
  information report, lets the exception of \<^verbatim>\<open>std::stod\<close> escape, or breaks with the
  variables updated. There is no \<^verbatim>\<open>default\<close> case.
\<close>

datatype switch_result = ReturnHelp | ReturnInfo | Throws exn | Break vars

definition switch_option :: "'w library \<Rightarrow> char \<Rightarrow> string option \<Rightarrow> vars \<Rightarrow> switch_result" where
  "switch_option lib opt optarg v =
     (if opt = CHR ''h'' then ReturnHelp
      else if opt = CHR ''i'' then ReturnInfo
      else if opt = CHR ''f''
        then Break (v\<lparr>findDevicesFlag := True, argStr := assign optarg (argStr v)\<rparr>)
      else if opt = CHR ''m''
        then Break (v\<lparr>makeDeviceFlag := True, argStr := assign optarg (argStr v)\<rparr>)
      else if opt = CHR ''p''
        then Break (v\<lparr>probeDeviceFlag := True, argStr := assign optarg (argStr v)\<rparr>)
      else if opt = CHR ''c'' then Break (v\<lparr>driverName := assign optarg (driverName v)\<rparr>)
      else if opt = CHR ''s'' then Break (v\<lparr>sparsePrintFlag := True\<rparr>)
      else if opt = CHR ''a'' then Break (v\<lparr>argStr := assign optarg (argStr v)\<rparr>)
      else if opt = CHR ''r''
        then (case optarg of
                None \<Rightarrow> Break v
              | Some a \<Rightarrow>
                  (case stod lib a of
                     Inl ex \<Rightarrow> Throws ex
                   | Inr rate \<Rightarrow> Break (v\<lparr>sampleRate := rate\<rparr>)))
      else if opt = CHR ''n'' then Break (v\<lparr>chanStr := assign optarg (chanStr v)\<rparr>)
      else if opt = CHR ''d'' then Break (v\<lparr>dirStr := assign optarg (dirStr v)\<rparr>)
      else Break v)"

text \<open>
  How the process ends: \<^verbatim>\<open>main\<close> returns an exit code, or an exception that nothing
  catches reaches \<^verbatim>\<open>std::terminate\<close>.
\<close>

datatype outcome = Exit int | Terminate exn

definition returns :: "int \<times> 'w sys \<Rightarrow> outcome \<times> 'w sys" where
  "returns r = (Exit (fst r), snd r)"

fun getopt_loop ::
  "'w library \<Rightarrow> getopt_result list \<Rightarrow> vars \<Rightarrow> 'w sys \<Rightarrow> (outcome \<times> 'w sys) + vars" where
  "getopt_loop lib [] v s = Inr v"
| "getopt_loop lib ((opt, optarg) # rest) v s =
     (case switch_option lib opt optarg v of
        ReturnHelp \<Rightarrow> Inl (returns (printHelp (printBanner s)))
      | ReturnInfo \<Rightarrow> Inl (returns (printInfo lib (printBanner s)))
      | Throws ex \<Rightarrow> Inl (Terminate ex, s)
      | Break v' \<Rightarrow> getopt_loop lib rest v' s)"

definition call_rateTest :: "'w library \<Rightarrow> vars \<Rightarrow> 'w sys \<Rightarrow> outcome \<times> 'w sys" where
  "call_rateTest lib v s =
     (case call_lib (SoapySDRRateTest lib (argStr v) (sampleRate v) (chanStr v) (dirStr v)) s of
        (Inl ex, s1) \<Rightarrow> (Terminate ex, s1)
      | (Inr code, s1) \<Rightarrow> (Exit code, s1))"

text \<open>The rest of \<^verbatim>\<open>main\<close>, after the loop over the options.\<close>

definition main_dispatch :: "'w library \<Rightarrow> vars \<Rightarrow> 'w sys \<Rightarrow> outcome \<times> 'w sys" where
  "main_dispatch lib v s =
     (let s1 = (if \<not> sparsePrintFlag v then printBanner s else s)
      in if driverName v \<noteq> [] then returns (checkDriver lib (driverName v) s1)
         else if findDevicesFlag v
           then returns (findDevices lib (argStr v) (sparsePrintFlag v) s1)
         else if makeDeviceFlag v then returns (makeDevice lib (argStr v) s1)
         else if probeDeviceFlag v then returns (probeDevice lib (argStr v) s1)
         else if nonzero (sampleRate v) then call_rateTest lib v s1
         else returns (printHelp s1))"

definition main :: "'w library \<Rightarrow> getopt_result list \<Rightarrow> 'w sys \<Rightarrow> outcome \<times> 'w sys" where
  "main lib argv s =
     (case getopt_loop lib argv initial_vars s of
        Inl r \<Rightarrow> r
      | Inr v \<Rightarrow> main_dispatch lib v s)"

section \<open>What the specification says, in terms of the command line and the library\<close>

subsection \<open>The information report\<close>

text \<open>
  The module records of the report: for each module in turn its path, the error message
  of loading it (empty on success) and the version it reports (empty when unknown),
  together with the world after the last load.
\<close>

fun module_records ::
  "'w library \<Rightarrow> string list \<Rightarrow> 'w \<Rightarrow> (string \<times> string \<times> string) list \<times> 'w" where
  "module_records lib [] w = ([], w)"
| "module_records lib (m # ms) w =
     (let (err, w1) = loadModule lib m w;
          (recs, w2) = module_records lib ms w1
      in ((m, err, getModuleVersion lib m w1) # recs, w2))"

definition widest :: "string list \<Rightarrow> nat" where
  "widest names = Max (set (0 # map length names))"

definition path_line :: "'w library \<Rightarrow> 'w \<Rightarrow> nat \<Rightarrow> string \<Rightarrow> string" where
  "path_line lib w width path =
     ''Search path:  '' @ path @
     (if stat_fails lib path w
      then replicate (width - length path) CHR '' '' @ '' (missing)'' else []) @ endl"

definition module_line :: "nat \<Rightarrow> string \<times> string \<times> string \<Rightarrow> string" where
  "module_line width rec =
     (case rec of (path, err, version) \<Rightarrow>
        ''Module found: '' @ path @
        (if err = [] then [] else endl @ ''  '' @ err) @
        (if version = [] then []
         else replicate (width - length path) CHR '' '' @ '' ('' @ version @ '')'') @ endl)"

definition info_head :: "'w library \<Rightarrow> 'w \<Rightarrow> string" where
  "info_head lib w =
     ''Lib Version: v'' @ getLibVersion lib w @ endl @
     ''API Version: v'' @ getAPIVersion lib w @ endl @
     ''ABI Version: v'' @ getABIVersion lib w @ endl @
     ''Install root: '' @ getRootPath lib w @ endl"

definition converter_line :: "'w library \<Rightarrow> 'w \<Rightarrow> string \<Rightarrow> string" where
  "converter_line lib w source =
     '' - '' @ setw5 source @ '' -> ['' @ joinLoop [] (listTargetFormats lib source w) @ '']'' @ endl"

definition info_tail :: "'w library \<Rightarrow> 'w \<Rightarrow> string" where
  "info_tail lib w =
     ''Available factories... '' @
     (if joinLoop [] (listFindFunctions lib w) = [] then ''No factories found!''
      else joinLoop [] (listFindFunctions lib w)) @ endl @
     ''Available converters...'' @ endl @
     concat (map (converter_line lib w) (listAvailableSourceFormats lib w))"

subsection \<open>The find report\<close>

definition contribution :: "'w library \<Rightarrow> Kwargs \<Rightarrow> string" where
  "contribution lib r =
     (case map_of r ''label'' of Some label \<Rightarrow> label | None \<Rightarrow> KwargsToString lib r)"

definition numbered_line :: "nat \<times> string \<Rightarrow> string" where
  "numbered_line p = show_nat (fst p) @ '': '' @ snd p @ endl"

definition found_block :: "nat \<times> Kwargs \<Rightarrow> string" where
  "found_block p =
     ''Found device '' @ show_nat (fst p) @ endl @
     concat (map (\<lambda>it. ''  '' @ fst it @ '' = '' @ snd it @ endl) (snd p)) @ endl"

subsection \<open>The command line\<close>

definition given :: "char \<Rightarrow> getopt_result list \<Rightarrow> bool" where
  "given c argv = (c \<in> set (map fst argv))"

text \<open>The values that came with the options \<open>cs\<close>, in the order of the command line.\<close>

definition values_of :: "string \<Rightarrow> getopt_result list \<Rightarrow> string list" where
  "values_of cs argv =
     concat (map (\<lambda>(c, optarg). case optarg of None \<Rightarrow> [] | Some a \<Rightarrow> if c \<in> set cs then [a] else [])
               argv)"

definition last_or :: "'a \<Rightarrow> 'a list \<Rightarrow> 'a" where
  "last_or d xs = (if xs = [] then d else last xs)"

definition arg_string :: "getopt_result list \<Rightarrow> string" where
  "arg_string argv = last_or [] (values_of ''fmpa'' argv)"

definition check_name :: "getopt_result list \<Rightarrow> string" where
  "check_name argv = last_or [] (values_of ''c'' argv)"

definition converted :: "'w library \<Rightarrow> string \<Rightarrow> double" where
  "converted lib a = (case stod lib a of Inl ex \<Rightarrow> Finite 0 | Inr rate \<Rightarrow> rate)"

definition rate_value :: "'w library \<Rightarrow> getopt_result list \<Rightarrow> double" where
  "rate_value lib argv = last_or (Finite 0) (map (converted lib) (values_of ''r'' argv))"

definition converts :: "'w library \<Rightarrow> string \<Rightarrow> bool" where
  "converts lib a = (case stod lib a of Inl ex \<Rightarrow> False | Inr rate \<Rightarrow> True)"

definition rates_convert :: "'w library \<Rightarrow> getopt_result list \<Rightarrow> bool" where
  "rates_convert lib argv = list_all (converts lib) (values_of ''r'' argv)"

definition parsed :: "'w library \<Rightarrow> getopt_result list \<Rightarrow> vars" where
  "parsed lib argv =
     \<lparr>argStr = arg_string argv,
      chanStr = last_or [] (values_of ''n'' argv),
      dirStr = last_or [] (values_of ''d'' argv),
      sampleRate = rate_value lib argv,
      driverName = check_name argv,
      findDevicesFlag = given CHR ''f'' argv,
      sparsePrintFlag = given CHR ''s'' argv,
      makeDeviceFlag = given CHR ''m'' argv,
      probeDeviceFlag = given CHR ''p'' argv\<rparr>"

datatype workflow = Check | Find | Make | Probe | RateTest | Help

text \<open>The priority of the workflows: each with the condition under which it is eligible.\<close>

definition priority :: "'w library \<Rightarrow> getopt_result list \<Rightarrow> (bool \<times> workflow) list" where
  "priority lib argv =
     [(check_name argv \<noteq> [], Check),
      (given CHR ''f'' argv, Find),
      (given CHR ''m'' argv, Make),
      (given CHR ''p'' argv, Probe),
      (nonzero (rate_value lib argv), RateTest)]"

definition selected :: "'w library \<Rightarrow> getopt_result list \<Rightarrow> workflow" where
  "selected lib argv =
     (case filter fst (priority lib argv) of [] \<Rightarrow> Help | first # others \<Rightarrow> snd first)"

definition run_workflow ::
  "'w library \<Rightarrow> workflow \<Rightarrow> getopt_result list \<Rightarrow> 'w sys \<Rightarrow> outcome \<times> 'w sys" where
  "run_workflow lib flow argv s =
     (case flow of
        Check \<Rightarrow> returns (checkDriver lib (check_name argv) s)
      | Find \<Rightarrow> returns (findDevices lib (arg_string argv) (given CHR ''s'' argv) s)
      | Make \<Rightarrow> returns (makeDevice lib (arg_string argv) s)
      | Probe \<Rightarrow> returns (probeDevice lib (arg_string argv) s)
      | RateTest \<Rightarrow> call_rateTest lib (parsed lib argv) s
      | Help \<Rightarrow> returns (printHelp s))"

definition early :: "getopt_result \<Rightarrow> bool" where
  "early x = (fst x = CHR ''h'' \<or> fst x = CHR ''i'')"

text \<open>Two command lines that differ at most in the values of their \<^verbatim>\<open>--args\<close> options.\<close>

definition args_variant :: "getopt_result list \<Rightarrow> getopt_result list \<Rightarrow> bool" where
  "args_variant xs ys =
     list_all2 (\<lambda>x y. x = y \<or> (\<exists>a b. x = (CHR ''a'', Some a) \<and> y = (CHR ''a'', Some b))) xs ys"

section \<open>A test bench\<close>

text \<open>
  One concrete library, for the examples: two search paths of which the second is
  missing, two modules of which the first fails to load, three devices whose labels are
  out of order, a device that cannot be opened and one that opens but cannot be probed.
  \<open>loaded\<close> are the modules loaded so far and \<open>live\<close> the devices made and not yet unmade.
\<close>

record bench =
  loaded :: "string list"
  live :: "device list"

definition bench_devices :: "Kwargs list" where
  "bench_devices =
     [[(''driver'', ''rtlsdr''), (''label'', ''Zeta'')],
      [(''driver'', ''null'')],
      [(''driver'', ''hackrf''), (''label'', ''Alpha'')]]"

text \<open>The format of \<^verbatim>\<open>key=value\<close> pairs joined by \<^verbatim>\<open>", "\<close>.\<close>

definition bench_KwargsToString :: "Kwargs \<Rightarrow> string" where
  "bench_KwargsToString r = joinLoop [] (map (\<lambda>it. fst it @ ''='' @ snd it) r)"

text \<open>
  A stand-in for \<^verbatim>\<open>std::stod\<close> that agrees with it on the strings of decimal digits and
  on the strings that start with no number, such as \<^verbatim>\<open>"abc"\<close> and \<^verbatim>\<open>""\<close>, where it
  throws \<^verbatim>\<open>std::invalid_argument\<close>.
\<close>

definition bench_stod :: "string \<Rightarrow> exn + double" where
  "bench_stod a =
     (if a \<noteq> [] \<and> list_all (\<lambda>c. c \<in> set ''0123456789'') a
      then Inr (Finite (real (foldl (\<lambda>n c. 10 * n + (of_char c - 48)) 0 a)))
      else Inl ''stod'')"

definition bench_lib :: "bench library" where
  "bench_lib =
     \<lparr>getLibVersion = (\<lambda>w. ''0.7.0''),
      getAPIVersion = (\<lambda>w. ''0.7.0''),
      getABIVersion = (\<lambda>w. ''0.7''),
      getRootPath = (\<lambda>w. ''/usr''),
      listSearchPaths = (\<lambda>w. [''/usr/lib/soapy'', ''/opt/sdr'']),
      listModules = (\<lambda>w. [''/usr/lib/soapy/rtlsdrSupport.so'', ''/usr/lib/soapy/null.so'']),
      stat_fails = (\<lambda>path w. path = ''/opt/sdr''),
      loadModule = (\<lambda>m w.
        if m = ''/usr/lib/soapy/rtlsdrSupport.so'' then (''libusb not found'', w)
        else ([], w\<lparr>loaded := loaded w @ [m]\<rparr>)),
      getModuleVersion = (\<lambda>m w. if m \<in> set (loaded w) then ''0.7'' else []),
      loadModules = (\<lambda>w. w\<lparr>loaded := loaded w @ [''/usr/lib/soapy/null.so'']\<rparr>),
      listFindFunctions = (\<lambda>w. if loaded w = [] then [] else [''null'']),
      listAvailableSourceFormats = (\<lambda>w. [''CF32'', ''S8'']),
      listTargetFormats = (\<lambda>source w. if source = ''CF32'' then [''CS16'', ''CS8''] else [''S16'']),
      Device_enumerate = (\<lambda>a w. (if a = ''driver=none'' then [] else bench_devices, w)),
      KwargsToString = bench_KwargsToString,
      Device_make = (\<lambda>a w.
        if a = ''driver=busy'' then (Inl ''device busy'', w)
        else if a = ''driver=flaky'' then (Inr 13, w\<lparr>live := 13 # live w\<rparr>)
        else (Inr 7, w\<lparr>live := 7 # live w\<rparr>)),
      getDriverKey = (\<lambda>d w. (if d = 13 then Inl ''read timeout'' else Inr ''null'', w)),
      getHardwareKey = (\<lambda>d w. (Inr ''null'', w)),
      getHardwareInfo = (\<lambda>d w. (Inr [(''origin'', ''bench'')], w)),
      Device_unmake = (\<lambda>d w. (Inr (), w\<lparr>live := removeAll d (live w)\<rparr>)),
      SoapySDRDeviceProbe = (\<lambda>d w. (if d = 13 then Inl ''read timeout'' else Inr ''-- bench'', w)),
      SoapySDRRateTest = (\<lambda>a rate chans dir w. (Inr 0, w)),
      stod = bench_stod\<rparr>"

definition bench0 :: "bench sys" where
  "bench0 = \<lparr>world = \<lparr>loaded = [], live = []\<rparr>, cout = [], cerr = [], calls = []\<rparr>"

section \<open>Properties\<close>

subsection \<open>Auxiliary facts\<close>

lemma put_simps [simp]:
  "world (put_out t s) = world s" "cout (put_out t s) = cout s @ t"
  "cerr (put_out t s) = cerr s" "calls (put_out t s) = calls s"
  "world (put_err t s) = world s" "cout (put_err t s) = cout s"
  "cerr (put_err t s) = cerr s @ t" "calls (put_err t s) = calls s"
  by (simp_all add: put_out_def put_err_def)

lemma bench_simps:
  "Device_enumerate bench_lib = (\<lambda>a w. (if a = ''driver=none'' then [] else bench_devices, w))"
  "Device_make bench_lib = (\<lambda>a w.
        if a = ''driver=busy'' then (Inl ''device busy'', w)
        else if a = ''driver=flaky'' then (Inr 13, w\<lparr>live := 13 # live w\<rparr>)
        else (Inr 7, w\<lparr>live := 7 # live w\<rparr>))"
  "SoapySDRDeviceProbe bench_lib =
     (\<lambda>d w. (if d = 13 then Inl ''read timeout'' else Inr ''-- bench'', w))"
  "getDriverKey bench_lib = (\<lambda>d w. (if d = 13 then Inl ''read timeout'' else Inr ''null'', w))"
  "KwargsToString bench_lib = bench_KwargsToString"
  "stod bench_lib = bench_stod"
  by (simp_all add: bench_lib_def)

lemma put_out_put_out: "put_out b (put_out a s) = put_out (a @ b) s"
  by (simp add: put_out_def)

lemma put_out_Nil: "put_out [] s = s"
  by (simp add: put_out_def)

lemma show_nat_digits:
  "show_nat 0 = ''0''" "show_nat (Suc 0) = ''1''" "show_nat (Suc (Suc 0)) = ''2''"
  by code_simp+

lemma upt3: "[0..<3] = [0, 1, 2]"
  by code_simp

subsection \<open>Release of the device\<close>

text \<open>
  What the probe workflow does to the library, in all cases: \<open>unmake\<close> follows a
  successful \<open>make\<close> exactly when the probe in between returns.
\<close>

lemma probeDevice_calls:
  "calls (snd (probeDevice lib a s)) =
     calls s @
     (case fst (Device_make lib a (world s)) of
        Inl ex \<Rightarrow> [MakeThrew]
      | Inr d \<Rightarrow>
          (case fst (SoapySDRDeviceProbe lib d (snd (Device_make lib a (world s)))) of
             Inl ex \<Rightarrow> [MakeOk d]
           | Inr report \<Rightarrow> [MakeOk d, Unmake d]))"
proof -
  obtain r w1 where m: "Device_make lib a (world s) = (r, w1)"
    by (cases "Device_make lib a (world s)")
  show ?thesis
  proof (cases r)
    case (Inl ex)
    with m show ?thesis
      by (simp add: probeDevice_def probeDevice_try_def call_make_def call_lib_def)
  next
    case (Inr d)
    obtain p w2 where pr: "SoapySDRDeviceProbe lib d w1 = (p, w2)"
      by (cases "SoapySDRDeviceProbe lib d w1")
    obtain u w3 where un: "Device_unmake lib d w2 = (u, w3)"
      by (cases "Device_unmake lib d w2")
    from m Inr pr un show ?thesis
      by (cases p; cases u)
         (simp_all add: probeDevice_def probeDevice_try_def call_make_def call_unmake_def
            call_lib_def)
  qed
qed

text \<open>
  C1. Every device that \<open>Device::make\<close> returns is handed to \<open>Device::unmake\<close> exactly
  once on every path out of the make and probe workflows, also when a later inspection
  or probe step throws. The source calls \<open>unmake\<close> as the last statement of the
  \<^verbatim>\<open>try\<close> block only: on the test bench, the device \<^verbatim>\<open>driver=flaky\<close> is made, its probe
  (for \<^verbatim>\<open>--probe\<close>) and its driver key (for \<^verbatim>\<open>--make\<close>) throw, and both workflows return
  the failure code with one successful make in the log, no unmake, and the device still
  live.
\<close>

theorem probe_failure_skips_unmake:
  "fst (probeDevice bench_lib ''driver=flaky'' bench0) = EXIT_FAILURE \<and>
   calls (snd (probeDevice bench_lib ''driver=flaky'' bench0)) = [MakeOk 13] \<and>
   live (world (snd (probeDevice bench_lib ''driver=flaky'' bench0))) = [13] \<and>
   fst (makeDevice bench_lib ''driver=flaky'' bench0) = EXIT_FAILURE \<and>
   calls (snd (makeDevice bench_lib ''driver=flaky'' bench0)) = [MakeOk 13] \<and>
   live (world (snd (makeDevice bench_lib ''driver=flaky'' bench0))) = [13]"
  by (simp add: probeDevice_def probeDevice_try_def makeDevice_def makeDevice_try_def
      call_make_def call_lib_def bench_simps bench0_def put_out_def put_err_def)

subsection \<open>Exit code of the find workflow\<close>

lemma printSparse_cerr [simp]: "cerr (printSparse i rs s) = cerr s"
  by (induction rs arbitrary: i s) simp_all

lemma printPairs_cerr [simp]: "cerr (printPairs r s) = cerr s"
  by (induction r arbitrary: s) simp_all

lemma printFound_cerr [simp]: "cerr (printFound i rs s) = cerr s"
  by (induction rs arbitrary: i s) (simp_all add: Let_def)

text \<open>
  C2, as the specification states it: with an empty device list the find workflow exits
  with code 1 and writes a message to the error stream, in sparse mode as in full mode.
  In sparse mode it writes nothing at all to the error stream: on the test bench,
  \<^verbatim>\<open>--find=driver=none --sparse\<close> finds no device, exits with 1 and leaves the error
  stream empty.
\<close>

theorem find_sparse_empty_is_silent:
  "fst (main bench_lib [(CHR ''f'', Some ''driver=none''), (CHR ''s'', None)] bench0) = Exit 1 \<and>
   cerr (snd (main bench_lib [(CHR ''f'', Some ''driver=none''), (CHR ''s'', None)] bench0)) = []"
  by (simp add: main_def switch_option_def main_dispatch_def initial_vars_def assign_def
      findDevices_def bench_simps bench0_def returns_def EXIT_FAILURE_def)

text \<open>
  C2, amended: in both modes the find workflow returns the failure code when the
  enumeration is empty and the success code when it holds a device; the message
  \<^verbatim>\<open>No devices found!\<close> goes to the error stream when the enumeration is empty and the
  mode is the full one, and nothing else is written there.
\<close>

theorem findDevices_exit_code_and_notice:
  "fst (findDevices lib a sparse s) =
     (if fst (Device_enumerate lib a (world s)) = [] then EXIT_FAILURE else EXIT_SUCCESS) \<and>
   cerr (snd (findDevices lib a sparse s)) =
     cerr s @ (if fst (Device_enumerate lib a (world s)) = [] \<and> \<not> sparse
               then ''No devices found!'' @ endl else []) \<and>
   EXIT_FAILURE = 1 \<and> EXIT_SUCCESS = 0"
  by (simp add: findDevices_def Let_def EXIT_SUCCESS_def EXIT_FAILURE_def split: prod.splits)

subsection \<open>The check workflow\<close>

text \<open>
  C3. For every driver name, \<open>checkDriver\<close> makes exactly one call of \<open>loadModules\<close>, reads
  the registry of find functions in the world that this call leaves, and returns 0 if
  the name is one of its keys and 1 otherwise. It is what \<^verbatim>\<open>--check=name\<close> runs, after
  the banner, for every name that is not empty.
\<close>

theorem checkDriver_loads_once_then_checks:
  "calls (snd (checkDriver lib name s)) = calls s @ [LoadModules] \<and>
   world (snd (checkDriver lib name s)) = loadModules lib (world s) \<and>
   fst (checkDriver lib name s) =
     (if name \<in> set (listFindFunctions lib (loadModules lib (world s)))
      then EXIT_SUCCESS else EXIT_FAILURE) \<and>
   EXIT_SUCCESS = 0 \<and> EXIT_FAILURE = 1 \<and>
   (name \<noteq> [] \<longrightarrow>
      main lib [(CHR ''c'', Some name)] s = returns (checkDriver lib name (printBanner s)))"
  by (simp add: checkDriver_def Let_def EXIT_SUCCESS_def EXIT_FAILURE_def
      main_def switch_option_def main_dispatch_def initial_vars_def assign_def)

text \<open>
  On the test bench the registry is empty until the modules are loaded: the driver
  \<^verbatim>\<open>null\<close> is found, because the registry is read after the load, and \<^verbatim>\<open>rtlsdr\<close>, whose
  module does not load, is missing.
\<close>

theorem checkDriver_loads_once_then_checks_witness:
  "listFindFunctions bench_lib (world bench0) = [] \<and>
   fst (checkDriver bench_lib ''null'' bench0) = 0 \<and>
   fst (checkDriver bench_lib ''rtlsdr'' bench0) = 1 \<and>
   calls (snd (checkDriver bench_lib ''null'' bench0)) = [LoadModules] \<and>
   main bench_lib [(CHR ''c'', Some ''null'')] bench0 =
     returns (checkDriver bench_lib ''null'' (printBanner bench0))"
  using checkDriver_loads_once_then_checks [of bench_lib "''null''" bench0]
    checkDriver_loads_once_then_checks [of bench_lib "''rtlsdr''" bench0]
  by (simp add: bench_lib_def bench0_def)

subsection \<open>A device that cannot be made\<close>

lemma call_make_threw:
  assumes "fst (Device_make lib a (world s)) = Inl ex"
  shows "call_make lib a s =
           (Inl ex, s\<lparr>world := snd (Device_make lib a (world s)), calls := calls s @ [MakeThrew]\<rparr>)"
proof -
  obtain r w1 where m: "Device_make lib a (world s) = (r, w1)"
    by (cases "Device_make lib a (world s)")
  with assms have "r = Inl ex" by simp
  with m show ?thesis by (simp add: call_make_def call_lib_def)
qed

lemma makeDevice_threw:
  assumes "fst (Device_make lib a (world s)) = Inl ex"
  shows "makeDevice lib a s =
           (EXIT_FAILURE,
            s\<lparr>world := snd (Device_make lib a (world s)),
              cout := cout s @ ''Make device '' @ a @ endl,
              cerr := cerr s @ ''Error making device: '' @ ex @ endl,
              calls := calls s @ [MakeThrew]\<rparr>)"
proof -
  let ?s1 = "put_out (''Make device '' @ a @ endl) s"
  have "fst (Device_make lib a (world ?s1)) = Inl ex"
    using assms by simp
  then have "call_make lib a ?s1 =
      (Inl ex, ?s1\<lparr>world := snd (Device_make lib a (world ?s1)), calls := calls ?s1 @ [MakeThrew]\<rparr>)"
    by (rule call_make_threw)
  then show ?thesis
    by (simp add: makeDevice_def makeDevice_try_def put_out_def put_err_def)
qed

text \<open>
  C5. When \<open>Device::make\<close> throws in the make workflow, the exception is caught in
  \<open>makeDevice\<close>: the text \<^verbatim>\<open>Error making device:\<close> with the message of the exception goes
  to the error stream, nothing but the headline goes to the output, and the workflow
  returns the failure code, so that the process ends with exit code 1 and not in
  \<^verbatim>\<open>std::terminate\<close>.
\<close>

theorem makeDevice_catches_construction_error:
  assumes "fst (Device_make lib a (world s)) = Inl ex"
  shows "makeDevice lib a s =
           (EXIT_FAILURE,
            s\<lparr>world := snd (Device_make lib a (world s)),
              cout := cout s @ ''Make device '' @ a @ endl,
              cerr := cerr s @ ''Error making device: '' @ ex @ endl,
              calls := calls s @ [MakeThrew]\<rparr>) \<and>
         fst (main lib [(CHR ''m'', Some a)] s) = Exit EXIT_FAILURE"
proof
  show "makeDevice lib a s =
           (EXIT_FAILURE,
            s\<lparr>world := snd (Device_make lib a (world s)),
              cout := cout s @ ''Make device '' @ a @ endl,
              cerr := cerr s @ ''Error making device: '' @ ex @ endl,
              calls := calls s @ [MakeThrew]\<rparr>)"
    using assms by (rule makeDevice_threw)
next
  have "fst (Device_make lib a (world (printBanner s))) = Inl ex"
    using assms by (simp add: printBanner_def)
  then have "fst (makeDevice lib a (printBanner s)) = EXIT_FAILURE"
    by (simp add: makeDevice_threw)
  then show "fst (main lib [(CHR ''m'', Some a)] s) = Exit EXIT_FAILURE"
    by (simp add: main_def switch_option_def main_dispatch_def initial_vars_def assign_def
        returns_def)
qed

theorem makeDevice_catches_construction_error_witness:
  "fst (Device_make bench_lib ''driver=busy'' (world bench0)) = Inl ''device busy'' \<and>
   makeDevice bench_lib ''driver=busy'' bench0 =
     (1, \<lparr>world = \<lparr>loaded = [], live = []\<rparr>, cout = ''Make device driver=busy'' @ endl,
          cerr = ''Error making device: device busy'' @ endl, calls = [MakeThrew]\<rparr>) \<and>
   fst (main bench_lib [(CHR ''m'', Some ''driver=busy'')] bench0) = Exit 1"
proof -
  have h: "fst (Device_make bench_lib ''driver=busy'' (world bench0)) = Inl ''device busy''"
    by (simp add: bench_simps)
  show ?thesis
    using h makeDevice_catches_construction_error [OF h]
    by (simp add: bench_simps bench0_def EXIT_FAILURE_def)
qed

subsection \<open>The two presentations of the devices found\<close>

lemma sparseLoop_map: "sparseLoop lib rs acc = acc @ map (contribution lib) rs"
  by (induction rs arbitrary: acc) (simp_all add: contribution_def split: option.splits)

lemma printSparse_put:
  "printSparse i ys s = put_out (concat (map numbered_line (zip [i..<i + length ys] ys))) s"
proof (induction ys arbitrary: i s)
  case Nil
  show ?case by (simp add: put_out_Nil)
next
  case (Cons y ys)
  have "[i..<i + length (y # ys)] = i # [Suc i..<Suc i + length ys]"
    using upt_conv_Cons [of i "i + length (y # ys)"] by simp
  then show ?case
    by (simp add: Cons.IH put_out_put_out numbered_line_def)
qed

lemma printPairs_put:
  "printPairs r s = put_out (concat (map (\<lambda>it. ''  '' @ fst it @ '' = '' @ snd it @ endl) r)) s"
  by (induction r arbitrary: s) (simp_all add: put_out_Nil put_out_put_out)

lemma printFound_put:
  "printFound i rs s = put_out (concat (map found_block (zip [i..<i + length rs] rs))) s"
proof (induction rs arbitrary: i s)
  case Nil
  show ?case by (simp add: put_out_Nil)
next
  case (Cons r rs)
  have "[i..<i + length (r # rs)] = i # [Suc i..<Suc i + length rs]"
    using upt_conv_Cons [of i "i + length (r # rs)"] by simp
  then show ?case
    by (simp add: Cons.IH printPairs_put put_out_put_out found_block_def)
qed

text \<open>
  C6. In sparse mode each descriptor of the enumeration contributes the value under
  \<^verbatim>\<open>"label"\<close> when it has that key and its \<open>KwargsToString\<close> otherwise; what is printed
  is the sorted rearrangement of these strings (in the lexicographic order of strings
  over the order of characters), one \<^verbatim>\<open>i: string\<close> line each, numbered 0, 1, 2, ... In
  full mode the descriptors are printed as \<^verbatim>\<open>Found device i\<close> blocks in the order of
  the enumeration, followed by one more line break when there is a device.
\<close>

theorem findDevices_sparse_sorted_full_in_order:
  "cout (snd (findDevices lib a True s)) =
     cout s @ concat (map numbered_line
       (zip [0..<length (fst (Device_enumerate lib a (world s)))]
            (sort (map (contribution lib) (fst (Device_enumerate lib a (world s))))))) \<and>
   sorted (sort (map (contribution lib) (fst (Device_enumerate lib a (world s))))) \<and>
   mset (sort (map (contribution lib) (fst (Device_enumerate lib a (world s))))) =
     mset (map (contribution lib) (fst (Device_enumerate lib a (world s)))) \<and>
   cout (snd (findDevices lib a False s)) =
     cout s @ concat (map found_block
       (zip [0..<length (fst (Device_enumerate lib a (world s)))]
            (fst (Device_enumerate lib a (world s))))) @
     (if fst (Device_enumerate lib a (world s)) = [] then [] else endl)"
  by (simp add: findDevices_def Let_def sparseLoop_map printSparse_put printFound_put
      put_out_def put_err_def split: prod.splits)

text \<open>
  The three devices of the test bench, whose labels are out of order: sorted in sparse
  mode, as enumerated in full mode.
\<close>

theorem findDevices_sparse_sorted_full_in_order_witness:
  "cout (snd (findDevices bench_lib [] True bench0)) =
     ''0: Alpha'' @ endl @ ''1: Zeta'' @ endl @ ''2: driver=null'' @ endl \<and>
   cout (snd (findDevices bench_lib [] False bench0)) =
     ''Found device 0'' @ endl @ ''  driver = rtlsdr'' @ endl @ ''  label = Zeta'' @ endl @ endl @
     ''Found device 1'' @ endl @ ''  driver = null'' @ endl @ endl @
     ''Found device 2'' @ endl @ ''  driver = hackrf'' @ endl @ ''  label = Alpha'' @ endl @ endl @
     endl"
  using findDevices_sparse_sorted_full_in_order [of bench_lib "[]" bench0]
  by (simp add: bench_simps bench0_def bench_devices_def contribution_def
      bench_KwargsToString_def numbered_line_def found_block_def upt3 show_nat_digits)

subsection \<open>The information report\<close>

lemma widest_Nil: "widest [] = 0"
  by (simp add: widest_def)

lemma widest_Cons: "widest (p # ps) = max (length p) (widest ps)"
proof -
  have "Max (insert (length p) (insert 0 (length ` set ps))) =
        max (length p) (Max (insert 0 (length ` set ps)))"
    by (rule Max_insert) simp_all
  then show ?thesis
    by (simp add: widest_def insert_commute)
qed

lemma widest_append: "widest (xs @ ys) = max (widest xs) (widest ys)"
  by (induction xs) (simp_all add: widest_Nil widest_Cons max.assoc)

lemma maxLenLoop_max: "maxLenLoop m names = max m (widest names)"
  by (induction names arbitrary: m) (simp_all add: widest_Nil widest_Cons max.assoc)

lemma maxLenLoop_widest: "maxLenLoop (maxLenLoop 0 paths) mods = widest (paths @ mods)"
  by (simp add: maxLenLoop_max widest_append)

lemma widest_bound: "p \<in> set names \<Longrightarrow> length p \<le> widest names"
  by (induction names) (auto simp: widest_Cons)

lemma widest_attained: "names \<noteq> [] \<Longrightarrow> widest names \<in> length ` set names"
proof (induction names)
  case Nil
  then show ?case by simp
next
  case (Cons p ps)
  show ?case
  proof (cases "ps = []")
    case True
    then show ?thesis by (simp add: widest_Cons widest_Nil)
  next
    case False
    with Cons.IH have "widest ps \<in> length ` set ps" by simp
    then show ?thesis
      by (cases "length p \<le> widest ps") (simp_all add: widest_Cons max_def)
  qed
qed

lemma printSearchPaths_put:
  "printSearchPaths lib width paths s = put_out (concat (map (path_line lib (world s) width) paths)) s"
  by (induction paths arbitrary: s)
     (simp_all add: put_out_Nil put_out_put_out path_line_def padding_def Let_def)


lemma printModules_state:
  "printModules lib width mods s =
     s\<lparr>world := snd (module_records lib mods (world s)),
       cout := cout s @ concat (map (module_line width) (fst (module_records lib mods (world s)))),
       calls := calls s @ map LoadModule mods\<rparr>"
proof (induction mods arbitrary: s)
  case Nil
  show ?case by simp
next
  case (Cons m ms)
  obtain err w1 where l: "loadModule lib m (world s) = (err, w1)"
    by (cases "loadModule lib m (world s)")
  obtain recs w2 where r: "module_records lib ms w1 = (recs, w2)"
    by (cases "module_records lib ms w1")
  show ?case
    by (simp add: Cons.IH l r module_line_def padding_def put_out_def)
qed

lemma printConverters_put:
  "printConverters lib sources s = put_out (concat (map (converter_line lib (world s)) sources)) s"
  by (induction sources arbitrary: s)
     (simp_all add: put_out_Nil put_out_put_out converter_line_def)


lemma printModules_fields [simp]:
  "world (printModules lib width mods s) = snd (module_records lib mods (world s))"
  "cout (printModules lib width mods s) =
     cout s @ concat (map (module_line width) (fst (module_records lib mods (world s))))"
  "cerr (printModules lib width mods s) = cerr s"
  "calls (printModules lib width mods s) = calls s @ map LoadModule mods"
  by (simp_all add: printModules_state)

lemma printInfo_code: "fst (printInfo lib s) = EXIT_SUCCESS"
  by (simp add: printInfo_def Let_def)

lemma printInfo_calls:
  "calls (snd (printInfo lib s)) = calls s @ map LoadModule (listModules lib (world s))"
  by (simp add: printInfo_def Let_def printSearchPaths_put printConverters_put)

lemma printInfo_cerr: "cerr (snd (printInfo lib s)) = cerr s"
  by (simp add: printInfo_def Let_def printSearchPaths_put printConverters_put)
lemma printInfo_cout:
  "cout (snd (printInfo lib s)) =
     cout s @ info_head lib (world s) @
     concat (map (path_line lib (world s)
               (widest (listSearchPaths lib (world s) @ listModules lib (world s))))
             (listSearchPaths lib (world s))) @
     concat (map (module_line (widest (listSearchPaths lib (world s) @ listModules lib (world s))))
             (fst (module_records lib (listModules lib (world s)) (world s)))) @
     (if listModules lib (world s) = [] then ''No modules found!'' @ endl else []) @
     info_tail lib (snd (module_records lib (listModules lib (world s)) (world s)))"
proof (cases "listModules lib (world s) = []")
  case True
  show ?thesis
    by (simp only: printInfo_def Let_def snd_conv printSearchPaths_put printConverters_put
        printModules_fields put_simps maxLenLoop_widest info_head_def info_tail_def
        True simp_thms if_True module_records.simps fst_conv list.map concat.simps append_Nil append_Nil2 append_assoc)
next
  case False
  show ?thesis
    by (simp only: printInfo_def Let_def snd_conv printSearchPaths_put printConverters_put
        printModules_fields put_simps maxLenLoop_widest info_head_def info_tail_def
        False if_False append_assoc append_Nil)
qed

lemma module_records_paths: "map fst (fst (module_records lib mods w)) = mods"
proof (induction mods arbitrary: w)
  case Nil
  show ?case by simp
next
  case (Cons m ms)
  obtain err w1 where l: "loadModule lib m w = (err, w1)"
    by (cases "loadModule lib m w")
  obtain recs w2 where r: "module_records lib ms w1 = (recs, w2)"
    by (cases "module_records lib ms w1")
  from Cons.IH [of w1] r show ?case
    by (simp add: l)
qed

text \<open>
  C8. The information report loads every module of the module list, one after the other
  and each exactly once, whatever the loads before it returned: a load that returns an
  error message adds the message to the line of its module (on a line of its own, after
  the path) and the loop goes on with the next module. The report ends with the success
  code, and \<^verbatim>\<open>main\<close> exits with 0 on \<^verbatim>\<open>--info\<close>.
\<close>

theorem printInfo_shows_load_errors_and_goes_on:
  "fst (printInfo lib s) = EXIT_SUCCESS \<and> EXIT_SUCCESS = 0 \<and>
   fst (main lib ((CHR ''i'', optarg) # rest) s) = Exit 0 \<and>
   calls (snd (printInfo lib s)) = calls s @ map LoadModule (listModules lib (world s)) \<and>
   map fst (fst (module_records lib (listModules lib (world s)) (world s))) =
     listModules lib (world s) \<and>
   cout (snd (printInfo lib s)) =
     cout s @ info_head lib (world s) @
     concat (map (path_line lib (world s)
               (widest (listSearchPaths lib (world s) @ listModules lib (world s))))
             (listSearchPaths lib (world s))) @
     concat (map (module_line (widest (listSearchPaths lib (world s) @ listModules lib (world s))))
             (fst (module_records lib (listModules lib (world s)) (world s)))) @
     (if listModules lib (world s) = [] then ''No modules found!'' @ endl else []) @
     info_tail lib (snd (module_records lib (listModules lib (world s)) (world s))) \<and>
   (\<forall>width path err version. err \<noteq> [] \<longrightarrow>
      module_line width (path, err, version) =
        ''Module found: '' @ path @ endl @ ''  '' @ err @
        (if version = [] then []
         else replicate (width - length path) CHR '' '' @ '' ('' @ version @ '')'') @ endl)"
  by (simp add: printInfo_code printInfo_calls module_records_paths printInfo_cout
      EXIT_SUCCESS_def main_def switch_option_def returns_def module_line_def)

lemma bench_info_simps:
  "listSearchPaths bench_lib = (\<lambda>w. [''/usr/lib/soapy'', ''/opt/sdr''])"
  "listModules bench_lib = (\<lambda>w. [''/usr/lib/soapy/rtlsdrSupport.so'', ''/usr/lib/soapy/null.so''])"
  "stat_fails bench_lib = (\<lambda>path w. path = ''/opt/sdr'')"
  "loadModule bench_lib = (\<lambda>m w.
        if m = ''/usr/lib/soapy/rtlsdrSupport.so'' then (''libusb not found'', w)
        else ([], w\<lparr>loaded := loaded w @ [m]\<rparr>))"
  "getModuleVersion bench_lib = (\<lambda>m w. if m \<in> set (loaded w) then ''0.7'' else [])"
  by (simp_all add: bench_lib_def)

lemma bench_records:
  "module_records bench_lib [''/usr/lib/soapy/rtlsdrSupport.so'', ''/usr/lib/soapy/null.so'']
     \<lparr>loaded = [], live = []\<rparr> =
   ([(''/usr/lib/soapy/rtlsdrSupport.so'', ''libusb not found'', []),
     (''/usr/lib/soapy/null.so'', [], ''0.7'')],
    \<lparr>loaded = [''/usr/lib/soapy/null.so''], live = []\<rparr>)"
  by (simp add: bench_info_simps)

lemma bench_widest:
  "widest [''/usr/lib/soapy'', ''/opt/sdr'', ''/usr/lib/soapy/rtlsdrSupport.so'',
           ''/usr/lib/soapy/null.so''] = 31"
  by (simp add: widest_def)

text \<open>
  On the test bench the first module fails to load: its message is shown and the second
  module is loaded all the same.
\<close>

theorem printInfo_shows_load_errors_and_goes_on_witness:
  "fst (printInfo bench_lib bench0) = 0 \<and>
   calls (snd (printInfo bench_lib bench0)) =
     [LoadModule ''/usr/lib/soapy/rtlsdrSupport.so'', LoadModule ''/usr/lib/soapy/null.so''] \<and>
   module_line 31 (''/usr/lib/soapy/rtlsdrSupport.so'', ''libusb not found'', []) =
     ''Module found: /usr/lib/soapy/rtlsdrSupport.so'' @ endl @ ''  libusb not found'' @ endl"
  using printInfo_shows_load_errors_and_goes_on [of bench_lib bench0]
  by (simp add: bench_info_simps bench0_def)

text \<open>
  C9. The width that the two loops over the search paths and the modules compute is the
  length of the longest string of the two lists together: no string of either list is
  longer, and it is the length of one of them (0 when both lists are empty). A search
  path that is missing and a module that reports a version are followed by as many
  spaces as their own length falls short of this width, then by the annotation.
\<close>

theorem printInfo_pads_to_longest_name:
  "maxLenLoop (maxLenLoop 0 (listSearchPaths lib (world s))) (listModules lib (world s)) =
     widest (listSearchPaths lib (world s) @ listModules lib (world s)) \<and>
   list_all (\<lambda>name. length name \<le> widest (listSearchPaths lib (world s) @ listModules lib (world s)))
     (listSearchPaths lib (world s) @ listModules lib (world s)) \<and>
   (listSearchPaths lib (world s) @ listModules lib (world s) = [] \<or>
    widest (listSearchPaths lib (world s) @ listModules lib (world s)) \<in>
      length ` set (listSearchPaths lib (world s) @ listModules lib (world s))) \<and>
   cout (snd (printInfo lib s)) =
     cout s @ info_head lib (world s) @
     concat (map (path_line lib (world s)
               (widest (listSearchPaths lib (world s) @ listModules lib (world s))))
             (listSearchPaths lib (world s))) @
     concat (map (module_line (widest (listSearchPaths lib (world s) @ listModules lib (world s))))
             (fst (module_records lib (listModules lib (world s)) (world s)))) @
     (if listModules lib (world s) = [] then ''No modules found!'' @ endl else []) @
     info_tail lib (snd (module_records lib (listModules lib (world s)) (world s)))"
proof -
  have "list_all (\<lambda>name. length name \<le> widest names) names" for names
    by (simp add: list_all_iff widest_bound)
  moreover have "names = [] \<or> widest names \<in> length ` set names" for names
    using widest_attained [of names] by blast
  ultimately show ?thesis
    by (simp only: maxLenLoop_widest printInfo_cout simp_thms)
qed


lemma bench_info_simps2:
  "getLibVersion bench_lib = (\<lambda>w. ''0.7.0'')"
  "getAPIVersion bench_lib = (\<lambda>w. ''0.7.0'')"
  "getABIVersion bench_lib = (\<lambda>w. ''0.7'')"
  "getRootPath bench_lib = (\<lambda>w. ''/usr'')"
  "listFindFunctions bench_lib = (\<lambda>w. if loaded w = [] then [] else [''null''])"
  "listAvailableSourceFormats bench_lib = (\<lambda>w. [''CF32'', ''S8''])"
  "listTargetFormats bench_lib =
     (\<lambda>source w. if source = ''CF32'' then [''CS16'', ''CS8''] else [''S16''])"
  by (simp_all add: bench_lib_def)

text \<open>
  On the test bench the longest of the four strings has 31 characters: the missing
  search path of 8 characters is followed by 23 spaces, the module of 22 characters by 9.
\<close>

lemma bench0_fields:
  "world bench0 = \<lparr>loaded = [], live = []\<rparr>" "cout bench0 = []" "cerr bench0 = []"
  "calls bench0 = []"
  by (simp_all add: bench0_def)

theorem printInfo_pads_to_longest_name_witness:
  "widest (listSearchPaths bench_lib (world bench0) @ listModules bench_lib (world bench0)) = 31 \<and>
   cout (snd (printInfo bench_lib bench0)) =
     ''Lib Version: v0.7.0'' @ endl @
     ''API Version: v0.7.0'' @ endl @
     ''ABI Version: v0.7'' @ endl @
     ''Install root: /usr'' @ endl @
     ''Search path:  /usr/lib/soapy'' @ endl @
     ''Search path:  /opt/sdr'' @ replicate 23 CHR '' '' @ '' (missing)'' @ endl @
     ''Module found: /usr/lib/soapy/rtlsdrSupport.so'' @ endl @ ''  libusb not found'' @ endl @
     ''Module found: /usr/lib/soapy/null.so'' @ replicate 9 CHR '' '' @ '' (0.7)'' @ endl @
     ''Available factories... null'' @ endl @
     ''Available converters...'' @ endl @
     '' -  CF32 -> [CS16, CS8]'' @ endl @
     '' -    S8 -> [S16]'' @ endl"
  using printInfo_pads_to_longest_name [of bench_lib bench0]
  by (simp add: bench_info_simps bench_info_simps2 bench0_fields bench_records bench_widest
      info_head_def info_tail_def path_line_def module_line_def converter_line_def setw5_def
      numeral_3_eq_3)

subsection \<open>The loop over the options\<close>

text \<open>
  When the loop runs to its end, the variables are those that \<open>parsed\<close> reads off the
  command line: each flag is set when its option is given, each string is the last value
  given to one of its options.
\<close>

lemma values_of_Nil: "values_of cs [] = []"
  by (simp add: values_of_def)

lemma values_of_snoc:
  "values_of cs (xs @ [(c, optarg)]) =
     values_of cs xs @ (case optarg of None \<Rightarrow> [] | Some a \<Rightarrow> if c \<in> set cs then [a] else [])"
  by (simp add: values_of_def)

lemma values_of_Cons:
  "values_of cs ((c, optarg) # xs) =
     (case optarg of None \<Rightarrow> [] | Some a \<Rightarrow> if c \<in> set cs then [a] else []) @ values_of cs xs"
  by (simp add: values_of_def)

lemma given_snoc: "given c' (xs @ [(c, optarg)]) = (given c' xs \<or> c' = c)"
  by (auto simp: given_def)

lemma last_or_snoc: "last_or d (ys @ [a]) = a"
  by (simp add: last_or_def)

lemma parsed_Nil: "parsed lib [] = initial_vars"
  by (simp add: parsed_def initial_vars_def arg_string_def check_name_def rate_value_def
      values_of_Nil last_or_def given_def)

lemma assign_last_or:
  "assign optarg (last_or d ys) = last_or d (ys @ (case optarg of None \<Rightarrow> [] | Some a \<Rightarrow> [a]))"
  by (simp add: assign_def last_or_def split: option.splits)

lemma switch_parsed:
  assumes "switch_option lib c optarg (parsed lib xs) = Break u"
  shows "u = parsed lib (xs @ [(c, optarg)])"
  using assms
  by (auto simp: switch_option_def parsed_def arg_string_def check_name_def rate_value_def
      values_of_snoc given_snoc last_or_snoc assign_def converted_def
      split: if_splits option.splits sum.splits)


lemma getopt_loop_append:
  "getopt_loop lib (xs @ ys) v s =
     (case getopt_loop lib xs v s of Inl r \<Rightarrow> Inl r | Inr v' \<Rightarrow> getopt_loop lib ys v' s)"
proof (induction xs arbitrary: v)
  case Nil
  show ?case by simp
next
  case (Cons x xs)
  obtain c optarg where x: "x = (c, optarg)" by (cases x)
  show ?case
    by (cases "switch_option lib c optarg v") (simp_all add: x Cons.IH)
qed

lemma getopt_loop_parsed:
  "getopt_loop lib argv initial_vars s = Inr u \<Longrightarrow> u = parsed lib argv"
proof (induction argv arbitrary: u rule: rev_induct)
  case Nil
  then show ?case by (simp add: parsed_Nil)
next
  case (snoc x xs)
  obtain c optarg where x: "x = (c, optarg)" by (cases x)
  from snoc.prems obtain u0 where
    u0: "getopt_loop lib xs initial_vars s = Inr u0" and
    last: "getopt_loop lib [(c, optarg)] u0 s = Inr u"
    by (auto simp: getopt_loop_append x split: sum.splits)
  from u0 have "u0 = parsed lib xs" by (rule snoc.IH)
  moreover from last have "switch_option lib c optarg u0 = Break u"
    by (cases "switch_option lib c optarg u0") simp_all
  ultimately show ?case
    by (simp add: x switch_parsed)
qed

lemma rates_convert_Cons:
  "rates_convert lib ((c, optarg) # xs) =
     ((case optarg of None \<Rightarrow> True | Some a \<Rightarrow> c = CHR ''r'' \<longrightarrow> converts lib a) \<and>
      rates_convert lib xs)"
  by (simp add: rates_convert_def values_of_Cons split: option.splits)

lemma switch_breaks:
  assumes "\<not> early (c, optarg)"
    and "case optarg of None \<Rightarrow> True | Some a \<Rightarrow> c = CHR ''r'' \<longrightarrow> converts lib a"
  shows "\<exists>v'. switch_option lib c optarg v = Break v'"
  using assms
  by (auto simp: switch_option_def early_def converts_def split: option.splits sum.splits)

lemma getopt_loop_completes:
  "\<not> list_ex early argv \<Longrightarrow> rates_convert lib argv \<Longrightarrow> \<exists>u. getopt_loop lib argv v s = Inr u"
proof (induction argv arbitrary: v)
  case Nil
  show ?case by simp
next
  case (Cons x xs)
  obtain c optarg where x: "x = (c, optarg)" by (cases x)
  from Cons.prems obtain v' where "switch_option lib c optarg v = Break v'"
    using switch_breaks [of c optarg lib v] by (auto simp: x rates_convert_Cons)
  moreover from Cons.prems have "\<exists>u. getopt_loop lib xs v' s = Inr u"
    by (intro Cons.IH) (simp_all add: x rates_convert_Cons)
  ultimately show ?case by (simp add: x)
qed

lemma getopt_loop_no_early:
  "getopt_loop lib argv v s = Inr u \<Longrightarrow> \<not> list_ex early argv"
proof (induction argv arbitrary: v)
  case Nil
  show ?case by simp
next
  case (Cons x xs)
  obtain c optarg where x: "x = (c, optarg)" by (cases x)
  from Cons.prems obtain v' where
    b: "switch_option lib c optarg v = Break v'" and r: "getopt_loop lib xs v' s = Inr u"
    by (cases "switch_option lib c optarg v") (simp_all add: x)
  from b have "\<not> early (c, optarg)"
    by (auto simp: switch_option_def early_def split: if_splits)
  with Cons.IH [OF r] show ?case by (simp add: x)
qed

lemma no_early_iff: "(\<not> list_ex early argv) = (\<not> given CHR ''h'' argv \<and> \<not> given CHR ''i'' argv)"
  by (force simp: list_ex_iff early_def given_def)

lemma main_parsed:
  assumes "\<not> given CHR ''h'' argv" and "\<not> given CHR ''i'' argv" and "rates_convert lib argv"
  shows "main lib argv s = main_dispatch lib (parsed lib argv) s"
proof -
  from assms obtain u where u: "getopt_loop lib argv initial_vars s = Inr u"
    using getopt_loop_completes [of argv lib initial_vars s] by (auto simp: no_early_iff)
  then have "u = parsed lib argv" by (rule getopt_loop_parsed)
  with u show ?thesis by (simp add: main_def)
qed

lemma bench_make_simps:
  "getHardwareKey bench_lib = (\<lambda>d w. (Inr ''null'', w))"
  "getHardwareInfo bench_lib = (\<lambda>d w. (Inr [(''origin'', ''bench'')], w))"
  "Device_unmake bench_lib = (\<lambda>d w. (Inr (), w\<lparr>live := removeAll d (live w)\<rparr>))"
  by (simp_all add: bench_lib_def)

lemma findDevices_calls: "calls (snd (findDevices lib a sparse s)) = calls s"
  by (simp add: findDevices_def Let_def printSparse_put printFound_put split: prod.splits)

subsection \<open>The priority of the workflows\<close>

text \<open>
  C4, as the specification states it: of the workflows whose flags are given, the one
  that runs is the first in the order check, find, make, probe, rate test. The options
  \<^verbatim>\<open>--help\<close> and \<^verbatim>\<open>--info\<close> are outside this order: they return from \<^verbatim>\<open>main\<close> inside the
  loop over the options. On the test bench, \<^verbatim>\<open>--find --info\<close> selects the find workflow
  by the priority, and what runs is the information report, which loads the two modules;
  the find workflow would have made no call to the module loader.
\<close>

theorem info_runs_although_find_is_given:
  "selected bench_lib [(CHR ''f'', None), (CHR ''i'', None)] = Find \<and>
   main bench_lib [(CHR ''f'', None), (CHR ''i'', None)] bench0 =
     returns (printInfo bench_lib (printBanner bench0)) \<and>
   calls (snd (main bench_lib [(CHR ''f'', None), (CHR ''i'', None)] bench0)) =
     [LoadModule ''/usr/lib/soapy/rtlsdrSupport.so'', LoadModule ''/usr/lib/soapy/null.so''] \<and>
   calls (snd (run_workflow bench_lib Find [(CHR ''f'', None), (CHR ''i'', None)]
                 (printBanner bench0))) = []"
proof -
  have "main bench_lib [(CHR ''f'', None), (CHR ''i'', None)] bench0 =
     returns (printInfo bench_lib (printBanner bench0))"
    by (simp add: main_def switch_option_def)
  moreover have "selected bench_lib [(CHR ''f'', None), (CHR ''i'', None)] = Find"
    by (simp add: selected_def priority_def check_name_def values_of_def last_or_def given_def
        rate_value_def nonzero_def)
  moreover have "calls (snd (run_workflow bench_lib Find [(CHR ''f'', None), (CHR ''i'', None)]
                 (printBanner bench0))) = []"
    by (simp add: run_workflow_def returns_def findDevices_calls printBanner_def bench0_fields)
  moreover have "calls (snd (returns (printInfo bench_lib (printBanner bench0)))) =
     [LoadModule ''/usr/lib/soapy/rtlsdrSupport.so'', LoadModule ''/usr/lib/soapy/null.so'']"
    by (simp add: returns_def printInfo_calls printBanner_def bench0_fields bench_info_simps)
  ultimately show ?thesis by simp
qed

text \<open>
  C4, amended: on a command line without \<^verbatim>\<open>--help\<close> and \<^verbatim>\<open>--info\<close>, whose \<^verbatim>\<open>--rate\<close>
  values all convert to a number, exactly one workflow runs, after the banner unless
  \<^verbatim>\<open>--sparse\<close> is given. It is the first that is eligible in the order: check (when the
  last value given to \<^verbatim>\<open>--check\<close> is not empty), find, make, probe (when their option is
  given), rate test (when the last rate given is not zero); the help when none is.
\<close>

theorem main_runs_one_workflow_by_priority:
  assumes "\<not> given CHR ''h'' argv" and "\<not> given CHR ''i'' argv" and "rates_convert lib argv"
  shows "main lib argv s =
           run_workflow lib (selected lib argv) argv
             (if given CHR ''s'' argv then s else printBanner s)"
  unfolding main_parsed [OF assms]
  by (simp add: main_dispatch_def run_workflow_def selected_def priority_def parsed_def)

text \<open>
  A command line with \<^verbatim>\<open>--probe\<close>, \<^verbatim>\<open>--find\<close>, a \<^verbatim>\<open>--check\<close> without a name and a rate: the
  find workflow runs, on the argument of \<^verbatim>\<open>--probe\<close>.
\<close>

theorem main_runs_one_workflow_by_priority_witness:
  "\<not> given CHR ''h'' [(CHR ''p'', Some ''driver=null''), (CHR ''s'', None), (CHR ''f'', None),
                      (CHR ''c'', None), (CHR ''r'', Some ''250'')] \<and>
   \<not> given CHR ''i'' [(CHR ''p'', Some ''driver=null''), (CHR ''s'', None), (CHR ''f'', None),
                      (CHR ''c'', None), (CHR ''r'', Some ''250'')] \<and>
   rates_convert bench_lib [(CHR ''p'', Some ''driver=null''), (CHR ''s'', None), (CHR ''f'', None),
                      (CHR ''c'', None), (CHR ''r'', Some ''250'')] \<and>
   selected bench_lib [(CHR ''p'', Some ''driver=null''), (CHR ''s'', None), (CHR ''f'', None),
                      (CHR ''c'', None), (CHR ''r'', Some ''250'')] = Find \<and>
   main bench_lib [(CHR ''p'', Some ''driver=null''), (CHR ''s'', None), (CHR ''f'', None),
                      (CHR ''c'', None), (CHR ''r'', Some ''250'')] bench0 =
     returns (findDevices bench_lib ''driver=null'' True bench0)"
proof -
  let ?argv = "[(CHR ''p'', Some ''driver=null''), (CHR ''s'', None), (CHR ''f'', None),
                      (CHR ''c'', None), (CHR ''r'', Some ''250'')]"
  have h: "\<not> given CHR ''h'' ?argv" and i: "\<not> given CHR ''i'' ?argv"
    by (simp_all add: given_def)
  have r: "rates_convert bench_lib ?argv"
    by (simp add: rates_convert_def values_of_def converts_def bench_simps bench_stod_def)
  have s: "selected bench_lib ?argv = Find"
    by (simp add: selected_def priority_def check_name_def values_of_def last_or_def given_def)
  have a: "arg_string ?argv = ''driver=null''" "given CHR ''s'' ?argv"
    by (simp_all add: arg_string_def values_of_def last_or_def given_def)
  from main_runs_one_workflow_by_priority [OF h i r, of bench0] h i r s a show ?thesis
    by (simp add: run_workflow_def)
qed

subsection \<open>The value of the option args\<close>

lemma switch_option_argStr:
  "switch_option lib c optarg (v\<lparr>argStr := b\<rparr>) =
     (case switch_option lib c optarg v of
        Break u \<Rightarrow>
          Break (u\<lparr>argStr := (if c \<in> set ''fmpa'' then assign optarg b else b)\<rparr>)
      | other \<Rightarrow> other)"
  by (simp add: switch_option_def split: option.splits sum.splits)

lemma getopt_loop_variant:
  assumes "args_variant xs ys"
  shows "case getopt_loop lib xs v s of
           Inl r \<Rightarrow> getopt_loop lib ys (v\<lparr>argStr := b\<rparr>) s = Inl r
         | Inr u \<Rightarrow> (\<exists>b'. getopt_loop lib ys (v\<lparr>argStr := b\<rparr>) s = Inr (u\<lparr>argStr := b'\<rparr>))"
  using assms unfolding args_variant_def
proof (induction xs ys arbitrary: v b rule: list_all2_induct)
  case Nil
  show ?case by auto
next
  case (Cons x xs y ys)
  obtain c optarg where x: "x = (c, optarg)" by (cases x)
  from Cons.hyps(1) consider "y = x" | a a' where "x = (CHR ''a'', Some a)" "y = (CHR ''a'', Some a')"
    by auto
  then show ?case
  proof cases
    case 1
    with x have y: "y = (c, optarg)" by simp
    show ?thesis
    proof (cases "switch_option lib c optarg v")
      case (Break u)
      define b1 where "b1 = (if c \<in> set ''fmpa'' then assign optarg b else b)"
      from Break have "switch_option lib c optarg (v\<lparr>argStr := b\<rparr>) = Break (u\<lparr>argStr := b1\<rparr>)"
        by (simp add: switch_option_argStr b1_def)
      with Break Cons.IH [where v = u and b = b1] show ?thesis
        by (simp add: y x split: sum.splits)
    qed (simp_all add: y x switch_option_argStr)
  next
    case 2
    have "switch_option lib CHR ''a'' (Some a) v = Break (v\<lparr>argStr := a\<rparr>)"
      "switch_option lib CHR ''a'' (Some a') (v\<lparr>argStr := b\<rparr>) = Break (v\<lparr>argStr := a'\<rparr>)"
      by (simp_all add: switch_option_def assign_def)
    with Cons.IH [where v = "v\<lparr>argStr := a\<rparr>" and b = a'] show ?thesis
      by (simp add: 2 split: sum.splits)
  qed
qed

text \<open>
  C7, as the specification states it: the value of \<^verbatim>\<open>--args\<close> is used by the rate test
  only, so that two command lines that differ in this value alone behave alike in the
  find, make and probe workflows. The option assigns to \<^verbatim>\<open>argStr\<close>, the variable that
  \<^verbatim>\<open>--find\<close>, \<^verbatim>\<open>--make\<close> and \<^verbatim>\<open>--probe\<close> assign to and that their workflows receive: on the
  test bench, \<^verbatim>\<open>--make --args=driver=null\<close> makes a device and exits with 0, and
  \<^verbatim>\<open>--make --args=driver=busy\<close> fails to make one and exits with 1.
\<close>

theorem args_value_reaches_make:
  "args_variant [(CHR ''m'', None), (CHR ''a'', Some ''driver=null'')]
                [(CHR ''m'', None), (CHR ''a'', Some ''driver=busy'')] \<and>
   fst (main bench_lib [(CHR ''m'', None), (CHR ''a'', Some ''driver=null'')] bench0) = Exit 0 \<and>
   fst (main bench_lib [(CHR ''m'', None), (CHR ''a'', Some ''driver=busy'')] bench0) = Exit 1"
  by (simp add: args_variant_def main_def switch_option_def main_dispatch_def initial_vars_def
      assign_def returns_def makeDevice_def makeDevice_try_def call_make_def call_unmake_def
      call_lib_def bench_simps bench_make_simps EXIT_SUCCESS_def EXIT_FAILURE_def Let_def)

text \<open>
  C7, amended: the value of \<^verbatim>\<open>--args\<close> is stored in the argument string that the find,
  make and probe workflows and the rate test receive, where the last value given to any
  of \<^verbatim>\<open>--find\<close>, \<^verbatim>\<open>--make\<close>, \<^verbatim>\<open>--probe\<close> and \<^verbatim>\<open>--args\<close> stays. Two command lines that
  differ only in the values of \<^verbatim>\<open>--args\<close> behave alike whenever they leave the same
  argument string (so whenever a later \<^verbatim>\<open>--find=\<close>, \<^verbatim>\<open>--make=\<close> or \<^verbatim>\<open>--probe=\<close> value
  overrides them), and always when the check workflow runs or \<^verbatim>\<open>--help\<close> or \<^verbatim>\<open>--info\<close>
  is given.
\<close>

theorem args_value_matters_only_through_argument_string:
  assumes "args_variant xs ys"
    and "arg_string xs = arg_string ys \<or> check_name xs \<noteq> [] \<or>
         given CHR ''h'' xs \<or> given CHR ''i'' xs"
  shows "main lib xs s = main lib ys s"
proof (cases "getopt_loop lib xs initial_vars s")
  case (Inl r)
  with getopt_loop_variant [OF assms(1), where lib = lib and v = initial_vars and s = s and b = "[]"]
  have "getopt_loop lib ys initial_vars s = Inl r"
    by (simp add: initial_vars_def)
  with Inl show ?thesis by (simp add: main_def)
next
  case (Inr u)
  with getopt_loop_variant [OF assms(1), where lib = lib and v = initial_vars and s = s and b = "[]"]
  obtain b where ys: "getopt_loop lib ys initial_vars s = Inr (u\<lparr>argStr := b\<rparr>)"
    by (auto simp: initial_vars_def)
  from Inr have u: "u = parsed lib xs" by (rule getopt_loop_parsed)
  from ys have u': "u\<lparr>argStr := b\<rparr> = parsed lib ys" by (rule getopt_loop_parsed)
  from Inr have "\<not> list_ex early xs" by (rule getopt_loop_no_early)
  with assms(2) consider "arg_string xs = arg_string ys" | "check_name xs \<noteq> []"
    by (auto simp: no_early_iff)
  then have "main_dispatch lib (u\<lparr>argStr := b\<rparr>) s = main_dispatch lib u s"
  proof cases
    case 1
    from u have "argStr u = arg_string xs" by (simp add: parsed_def)
    moreover from u' have "b = arg_string ys"
      by (metis vars.select_convs(1) vars.update_convs(1) parsed_def vars.surjective)
    ultimately have "argStr u = b" using 1 by simp
    then have "u\<lparr>argStr := b\<rparr> = u" by (cases u) simp
    then show ?thesis by simp
  next
    case 2
    with u have "driverName u \<noteq> []" by (simp add: parsed_def)
    then show ?thesis by (simp add: main_dispatch_def)
  qed
  with Inr ys show ?thesis by (simp add: main_def)
qed

theorem args_value_matters_only_through_argument_string_witness:
  "args_variant [(CHR ''a'', Some ''driver=busy''), (CHR ''m'', Some ''driver=null'')]
                [(CHR ''a'', Some ''driver=flaky''), (CHR ''m'', Some ''driver=null'')] \<and>
   arg_string [(CHR ''a'', Some ''driver=busy''), (CHR ''m'', Some ''driver=null'')] = ''driver=null'' \<and>
   arg_string [(CHR ''a'', Some ''driver=flaky''), (CHR ''m'', Some ''driver=null'')] = ''driver=null'' \<and>
   main bench_lib [(CHR ''a'', Some ''driver=busy''), (CHR ''m'', Some ''driver=null'')] bench0 =
   main bench_lib [(CHR ''a'', Some ''driver=flaky''), (CHR ''m'', Some ''driver=null'')] bench0"
proof -
  let ?xs = "[(CHR ''a'', Some ''driver=busy''), (CHR ''m'', Some ''driver=null'')]"
  let ?ys = "[(CHR ''a'', Some ''driver=flaky''), (CHR ''m'', Some ''driver=null'')]"
  have v: "args_variant ?xs ?ys"
    by (simp add: args_variant_def)
  have a: "arg_string ?xs = ''driver=null''" "arg_string ?ys = ''driver=null''"
    by (simp_all add: arg_string_def values_of_def last_or_def)
  then have h: "arg_string ?xs = arg_string ?ys \<or> check_name ?xs \<noteq> [] \<or>
      given CHR ''h'' ?xs \<or> given CHR ''i'' ?xs"
    by simp
  from args_value_matters_only_through_argument_string [OF v h] v a show ?thesis
    by simp
qed

subsection \<open>Help and information\<close>

lemma switch_early:
  "early (c, optarg) \<Longrightarrow>
   switch_option lib c optarg v = (if c = CHR ''h'' then ReturnHelp else ReturnInfo)"
  by (auto simp: switch_option_def early_def)

lemma getopt_loop_returns_early:
  assumes "find early argv = Some x"
    and "rates_convert lib (takeWhile (\<lambda>y. \<not> early y) argv)"
  shows "getopt_loop lib argv v s =
           Inl (returns (if fst x = CHR ''h'' then printHelp (printBanner s)
                         else printInfo lib (printBanner s)))"
  using assms
proof (induction argv arbitrary: v)
  case Nil
  then show ?case by simp
next
  case (Cons y ys)
  obtain c optarg where y: "y = (c, optarg)" by (cases y)
  show ?case
  proof (cases "early y")
    case True
    with Cons.prems have "x = y" by simp
    with True show ?thesis
      by (simp add: y switch_early)
  next
    case False
    with Cons.prems have f: "find early ys = Some x"
      and r: "rates_convert lib (takeWhile (\<lambda>y. \<not> early y) ys)"
      and c: "case optarg of None \<Rightarrow> True | Some a \<Rightarrow> c = CHR ''r'' \<longrightarrow> converts lib a"
      by (simp_all add: y rates_convert_Cons)
    from False c obtain v' where "switch_option lib c optarg v = Break v'"
      using switch_breaks [of c optarg lib v] by (auto simp: y)
    with Cons.IH [OF f r] show ?thesis
      by (simp add: y)
  qed
qed

text \<open>
  C10, as the specification states it: with \<^verbatim>\<open>--help\<close> or \<^verbatim>\<open>--info\<close> on the command line
  the process prints the banner and the report and exits with 0, whatever the other
  options are. The options are handled in their order, and a \<^verbatim>\<open>--rate\<close> before the flag
  is converted first: on the test bench, \<^verbatim>\<open>--rate=abc --help\<close> ends in the exception of
  \<^verbatim>\<open>std::stod\<close>, which nothing catches, with nothing printed.
\<close>

theorem bad_rate_before_help_terminates:
  "main bench_lib [(CHR ''r'', Some ''abc''), (CHR ''h'', None)] bench0 =
     (Terminate ''stod'', bench0)"
  by (simp add: main_def switch_option_def bench_simps bench_stod_def)

text \<open>
  C10, amended: when \<^verbatim>\<open>--help\<close> or \<^verbatim>\<open>--info\<close> is on the command line and every \<^verbatim>\<open>--rate\<close>
  value before the first of them converts to a number, the process prints the banner
  and the report of that first flag and exits with 0 at that point; no workflow runs
  (the library is called by the information report only, to load each module), whatever
  the other options before and after the flag are.
\<close>

theorem help_and_info_return_during_parsing:
  assumes "find early argv = Some x"
    and "rates_convert lib (takeWhile (\<lambda>y. \<not> early y) argv)"
  shows "main lib argv s =
           returns (if fst x = CHR ''h'' then printHelp (printBanner s)
                    else printInfo lib (printBanner s)) \<and>
         fst (main lib argv s) = Exit 0 \<and>
         calls (snd (main lib argv s)) =
           calls s @ (if fst x = CHR ''h'' then [] else map LoadModule (listModules lib (world s)))"
proof -
  have m: "main lib argv s =
           returns (if fst x = CHR ''h'' then printHelp (printBanner s)
                    else printInfo lib (printBanner s))"
    by (simp add: main_def getopt_loop_returns_early [OF assms])
  have "world (printBanner s) = world s" "calls (printBanner s) = calls s"
    by (simp_all add: printBanner_def)
  then show ?thesis
    unfolding m
    by (simp add: returns_def printHelp_def printInfo_code printInfo_calls EXIT_SUCCESS_def)
qed

text \<open>
  With \<^verbatim>\<open>--rate=250 --find --help --rate=abc\<close> the help is printed: the rate before it
  converts, the one after it is never looked at, and the find workflow does not run.
\<close>

theorem help_and_info_return_during_parsing_witness:
  "find early [(CHR ''r'', Some ''250''), (CHR ''f'', None), (CHR ''h'', None), (CHR ''r'', Some ''abc'')] =
     Some (CHR ''h'', None) \<and>
   rates_convert bench_lib (takeWhile (\<lambda>y. \<not> early y)
     [(CHR ''r'', Some ''250''), (CHR ''f'', None), (CHR ''h'', None), (CHR ''r'', Some ''abc'')]) \<and>
   main bench_lib [(CHR ''r'', Some ''250''), (CHR ''f'', None), (CHR ''h'', None), (CHR ''r'', Some ''abc'')] bench0 =
     (Exit 0, bench0\<lparr>cerr := cerr (printBanner bench0) @ help_text\<rparr>)"
proof -
  let ?argv = "[(CHR ''r'', Some ''250''), (CHR ''f'', None), (CHR ''h'', None), (CHR ''r'', Some ''abc'')]"
  have f: "find early ?argv = Some (CHR ''h'', None)"
    by (simp add: early_def)
  have r: "rates_convert bench_lib (takeWhile (\<lambda>y. \<not> early y) ?argv)"
    by (simp add: early_def rates_convert_def values_of_def converts_def bench_simps bench_stod_def)
  from help_and_info_return_during_parsing [OF f r, of bench0] f r show ?thesis
    by (simp add: returns_def printHelp_def put_err_def EXIT_SUCCESS_def printBanner_def)
qed

end
